theory Spec2Isabelle
  imports Complex_Main
begin

section \<open>Messages between the controller and the worker\<close>

text \<open>
  The main process (\<^verbatim>\<open>electron-main.js\<close>) writes commands to the worker's standard
  input, one JSON object per line: \<^verbatim>\<open>{cmd: "scan", source, output, threshold}\<close>,
  \<^verbatim>\<open>{cmd: "cancel"}\<close> and \<^verbatim>\<open>{cmd: "quit"}\<close>. A value of type \<open>command\<close> stands for
  the object handed to \<^verbatim>\<open>JSON.stringify\<close>; the arguments of \<open>Scan\<close> are \<^verbatim>\<open>source\<close>,
  \<^verbatim>\<open>output\<close> and \<^verbatim>\<open>threshold\<close>, in this order.
\<close>

datatype command =
  Scan string string int
| Cancel
| Quit

text \<open>
  What is sent to the renderer on the channel \<^verbatim>\<open>"backend-event"\<close>. The renderer
  dispatches on the field \<^verbatim>\<open>event\<close>; \<open>Other\<close> stands for every parsed value whose
  \<^verbatim>\<open>event\<close> field is none of the seven strings of the \<^verbatim>\<open>switch\<close>. The \<^verbatim>\<open>code\<close> of
  \<^verbatim>\<open>process-exit\<close> is a number, or \<^verbatim>\<open>null\<close> when a signal ended the process.
\<close>

datatype backend_event =
  Status string
| Log string
| Progress int int
| Complete string int
| Cancelled
| Error string
| ProcessExit "int option"
| Other

text \<open>Exceptions of the platform that the code catches or guards against.\<close>

datatype js_error = SyntaxError | WriteFailed

section \<open>The main process: \<^verbatim>\<open>electron-main.js\<close>\<close>

text \<open>
  The module state is the pair of globals \<^verbatim>\<open>mainWindow\<close> and \<^verbatim>\<open>pythonProcess\<close>. What
  the code does to the outside is recorded beside them: the number of calls of
  \<^verbatim>\<open>spawn\<close>, the lines written to each child's standard input (with the child's
  number), the children on which \<^verbatim>\<open>kill()\<close> was called, the messages given to
  \<^verbatim>\<open>mainWindow.webContents.send\<close>, the pending timeouts of \<^verbatim>\<open>setTimeout\<close> (each by the
  time in milliseconds at which it is due; \<open>now\<close> is the clock), and whether
  \<^verbatim>\<open>app.quit()\<close> was called.
\<close>

record window =
  isDestroyed :: bool

record child_process =
  cid :: nat
  stdin_writable :: bool

record main_state =
  mainWindow :: "window option"
  pythonProcess :: "child_process option"
  spawned :: nat
  stdin_log :: "(nat \<times> command) list"
  killed :: "nat list"
  backend_events :: "backend_event list"
  now :: nat
  timers :: "nat list"
  app_quit :: bool

text \<open>The module as loaded: no window yet, \<^verbatim>\<open>pythonProcess = null\<close>.\<close>

definition initial_main :: main_state where
  "initial_main =
     \<lparr>mainWindow = None, pythonProcess = None, spawned = 0, stdin_log = [], killed = [],
      backend_events = [], now = 0, timers = [], app_quit = False\<rparr>"

text \<open>The guard \<^verbatim>\<open>mainWindow && !mainWindow.isDestroyed()\<close>.\<close>

definition window_live :: "main_state \<Rightarrow> bool" where
  "window_live st = (case mainWindow st of None \<Rightarrow> False | Some win \<Rightarrow> \<not> isDestroyed win)"

text \<open>\<^verbatim>\<open>mainWindow.webContents.send("backend-event", msg)\<close>.\<close>

definition send_backend_event :: "backend_event \<Rightarrow> main_state \<Rightarrow> main_state" where
  "send_backend_event msg st = st\<lparr>backend_events := backend_events st @ [msg]\<rparr>"

text \<open>
  \<^verbatim>\<open>String.prototype.trim\<close>. A string is the list of its bytes in UTF-8. \<open>white_space\<close>
  lists the encodings of the code points that \<^verbatim>\<open>trim\<close> removes, the white space and
  line terminators of ECMAScript: U+0009 to U+000D and U+0020; U+00A0; U+1680; U+2000 to
  U+200A; U+2028 and U+2029; U+202F; U+205F; U+3000; U+FEFF. \<open>strip_start\<close> removes such
  sequences from the front for as long as one is there; \<open>trim\<close> does so at both ends.
\<close>

definition white_space :: "string list" where
  "white_space =
     [[CHR 0x09], [CHR 0x0A], [CHR 0x0B], [CHR 0x0C], [CHR 0x0D], [CHR 0x20],
      [CHR 0xC2, CHR 0xA0],
      [CHR 0xE1, CHR 0x9A, CHR 0x80],
      [CHR 0xE2, CHR 0x80, CHR 0x80], [CHR 0xE2, CHR 0x80, CHR 0x81],
      [CHR 0xE2, CHR 0x80, CHR 0x82], [CHR 0xE2, CHR 0x80, CHR 0x83],
      [CHR 0xE2, CHR 0x80, CHR 0x84], [CHR 0xE2, CHR 0x80, CHR 0x85],
      [CHR 0xE2, CHR 0x80, CHR 0x86], [CHR 0xE2, CHR 0x80, CHR 0x87],
      [CHR 0xE2, CHR 0x80, CHR 0x88], [CHR 0xE2, CHR 0x80, CHR 0x89],
      [CHR 0xE2, CHR 0x80, CHR 0x8A],
      [CHR 0xE2, CHR 0x80, CHR 0xA8], [CHR 0xE2, CHR 0x80, CHR 0xA9],
      [CHR 0xE2, CHR 0x80, CHR 0xAF],
      [CHR 0xE2, CHR 0x81, CHR 0x9F],
      [CHR 0xE3, CHR 0x80, CHR 0x80],
      [CHR 0xEF, CHR 0xBB, CHR 0xBF]]"

function strip_start :: "string list \<Rightarrow> string \<Rightarrow> string" where
  "strip_start ws s =
     (case find (\<lambda>w. w \<noteq> [] \<and> take (length w) s = w) ws of
        None \<Rightarrow> s
      | Some w \<Rightarrow> strip_start ws (drop (length w) s))"
  by pat_completeness auto
termination
proof (relation "measure (\<lambda>(ws, s). length s)")
  show "wf (measure (\<lambda>(ws, s). length s))" by simp
next
  fix ws :: "string list" and s w :: string
  assume "find (\<lambda>w. w \<noteq> [] \<and> take (length w) s = w) ws = Some w"
  then have w: "w \<noteq> []" and pre: "take (length w) s = w"
    by (auto simp: find_Some_iff)
  from w pre have "s \<noteq> []" by auto
  with w show "((ws, drop (length w) s), (ws, s)) \<in> measure (\<lambda>(ws, s). length s)"
    by simp
qed

definition trim :: "string \<Rightarrow> string" where
  "trim s = rev (strip_start (map rev white_space) (rev (strip_start white_space s)))"

text \<open>
  \<^verbatim>\<open>spawnPython\<close>: nothing when a child is live; otherwise \<^verbatim>\<open>spawn\<close> is called and
  its handle is stored. The parameter \<open>w\<close> is what \<^verbatim>\<open>stdin.writable\<close> reads on the
  new child (the platform decides it).
\<close>

definition spawnPython :: "bool \<Rightarrow> main_state \<Rightarrow> main_state" where
  "spawnPython w st =
     (if pythonProcess st \<noteq> None then st
      else st\<lparr>pythonProcess := Some \<lparr>cid = spawned st, stdin_writable = w\<rparr>,
              spawned := Suc (spawned st)\<rparr>)"

text \<open>
  The handler of \<^verbatim>\<open>rl.on("line")\<close>. \<open>parse\<close> is \<^verbatim>\<open>JSON.parse\<close> followed by the reading
  of the record as an event; \<open>Inl SyntaxError\<close> is its exception. The body of the
  \<^verbatim>\<open>try\<close> is \<open>on_line_try\<close>; the empty \<^verbatim>\<open>catch\<close> leaves the state as it was.
\<close>

definition on_line_try ::
  "(string \<Rightarrow> js_error + backend_event) \<Rightarrow> string \<Rightarrow> main_state \<Rightarrow> js_error + main_state" where
  "on_line_try parse line st =
     (case parse line of
        Inl e \<Rightarrow> Inl e
      | Inr msg \<Rightarrow> Inr (if window_live st then send_backend_event msg st else st))"

definition on_line ::
  "(string \<Rightarrow> js_error + backend_event) \<Rightarrow> string \<Rightarrow> main_state \<Rightarrow> main_state" where
  "on_line parse line st =
     (case on_line_try parse line st of Inl e \<Rightarrow> st | Inr st' \<Rightarrow> st')"

text \<open>The lines of the output stream, in arrival order.\<close>

fun on_lines ::
  "(string \<Rightarrow> js_error + backend_event) \<Rightarrow> string list \<Rightarrow> main_state \<Rightarrow> main_state" where
  "on_lines parse [] st = st"
| "on_lines parse (l # ls) st = on_lines parse ls (on_line parse l st)"

text \<open>The handler of \<^verbatim>\<open>pythonProcess.stderr.on("data")\<close>.\<close>

definition on_stderr :: "string \<Rightarrow> main_state \<Rightarrow> main_state" where
  "on_stderr data st =
     (let errMsg = trim data
      in if errMsg \<noteq> [] \<and> window_live st then send_backend_event (Error errMsg) st else st)"

text \<open>The handler of \<^verbatim>\<open>pythonProcess.on("close")\<close>.\<close>

definition on_close :: "int option \<Rightarrow> main_state \<Rightarrow> main_state" where
  "on_close code st =
     (let st1 = st\<lparr>pythonProcess := None\<rparr>
      in if window_live st1 then send_backend_event (ProcessExit code) st1 else st1)"

text \<open>
  \<^verbatim>\<open>pythonProcess.stdin.write(JSON.stringify(cmd) + "\n")\<close> on the child \<open>p\<close>: the line
  reaches the child when its input stream is writable, and the write fails otherwise.
\<close>

definition stdin_write :: "child_process \<Rightarrow> command \<Rightarrow> main_state \<Rightarrow> js_error + main_state" where
  "stdin_write p cmd st =
     (if stdin_writable p then Inr (st\<lparr>stdin_log := stdin_log st @ [(cid p, cmd)]\<rparr>)
      else Inl WriteFailed)"

text \<open>\<^verbatim>\<open>sendToPython\<close>. It returns nothing; \<open>Inl\<close> would be an exception leaving it.\<close>

definition sendToPython :: "bool \<Rightarrow> command \<Rightarrow> main_state \<Rightarrow> js_error + main_state" where
  "sendToPython w cmd st =
     (let st1 = (if pythonProcess st = None then spawnPython w st else st)
      in case pythonProcess st1 of
           None \<Rightarrow> Inr st1
         | Some p \<Rightarrow> if stdin_writable p then stdin_write p cmd st1 else Inr st1)"

text \<open>
  The callback that \<^verbatim>\<open>killPython\<close> gives to \<^verbatim>\<open>setTimeout\<close>: it reads the global
  \<^verbatim>\<open>pythonProcess\<close> when it runs.
\<close>

definition on_timeout :: "main_state \<Rightarrow> main_state" where
  "on_timeout st =
     (case pythonProcess st of
        None \<Rightarrow> st
      | Some p \<Rightarrow> st\<lparr>killed := killed st @ [cid p], pythonProcess := None\<rparr>)"

text \<open>
  \<^verbatim>\<open>killPython\<close>: the write of the quit command stands in a \<^verbatim>\<open>try\<close> with an empty
  \<^verbatim>\<open>catch\<close>, and is not guarded by \<^verbatim>\<open>stdin.writable\<close>; then the timeout of 1000 ms.
\<close>

definition killPython :: "main_state \<Rightarrow> main_state" where
  "killPython st =
     (case pythonProcess st of
        None \<Rightarrow> st
      | Some p \<Rightarrow>
          (let st1 = (case stdin_write p Quit st of Inl e \<Rightarrow> st | Inr st' \<Rightarrow> st')
           in st1\<lparr>timers := timers st1 @ [now st1 + 1000]\<rparr>))"

text \<open>
  Time passes by \<open>dt\<close> milliseconds: every timeout that is due by then runs its
  callback, in the order in which the timeouts were set.
\<close>

definition advance :: "nat \<Rightarrow> main_state \<Rightarrow> main_state" where
  "advance dt st =
     (let t = now st + dt;
          due = filter (\<lambda>d. d \<le> t) (timers st);
          st1 = st\<lparr>now := t, timers := filter (\<lambda>d. \<not> d \<le> t) (timers st)\<rparr>
      in fold (\<lambda>d. on_timeout) due st1)"

text \<open>\<^verbatim>\<open>createWindow\<close>, and the handler of the window's \<^verbatim>\<open>"closed"\<close> event in it.\<close>

definition createWindow :: "main_state \<Rightarrow> main_state" where
  "createWindow st = st\<lparr>mainWindow := Some \<lparr>isDestroyed = False\<rparr>\<rparr>"

definition on_window_closed :: "main_state \<Rightarrow> main_state" where
  "on_window_closed st = killPython (st\<lparr>mainWindow := None\<rparr>)"

text \<open>The handler of \<^verbatim>\<open>app.on("window-all-closed")\<close>.\<close>

definition on_window_all_closed :: "main_state \<Rightarrow> main_state" where
  "on_window_all_closed st = (killPython st)\<lparr>app_quit := True\<rparr>"

text \<open>
  The handlers of \<^verbatim>\<open>ipcMain.handle("start-scan")\<close> and \<^verbatim>\<open>ipcMain.handle("cancel-scan")\<close>:
  the state after the call and the value the handler returns.
\<close>

definition start_scan ::
  "bool \<Rightarrow> string \<Rightarrow> string \<Rightarrow> int \<Rightarrow> main_state \<Rightarrow> js_error + (bool \<times> main_state)" where
  "start_scan w src out thr st =
     (case sendToPython w (Scan src out thr) (spawnPython w st) of
        Inl e \<Rightarrow> Inl e
      | Inr st' \<Rightarrow> Inr (True, st'))"

definition cancel_scan :: "bool \<Rightarrow> main_state \<Rightarrow> js_error + (bool \<times> main_state)" where
  "cancel_scan w st =
     (case sendToPython w Cancel st of
        Inl e \<Rightarrow> Inl e
      | Inr st' \<Rightarrow> Inr (True, st'))"

section \<open>The renderer: \<^verbatim>\<open>renderer/renderer.js\<close> and its second version\<close>

text \<open>
  The repository holds two versions of the renderer script, \<^verbatim>\<open>src/renderer/renderer.js\<close>
  and \<^verbatim>\<open>src/unnamed/part_000\<close>. They have the same handlers and differ in a few
  statements; the functions below take the version and branch where the two differ.
\<close>

datatype version = RendererJs | Part000

text \<open>
  The text of \<^verbatim>\<open>progressCount\<close>: \<open>CountOf cur total\<close> stands for the template string
  \<^verbatim>\<open>`${cur} / ${total}`\<close>, \<open>NoCount\<close> for the empty string.
\<close>

datatype count_text = NoCount | CountOf int int

text \<open>
  The children of \<^verbatim>\<open>logContainer\<close>: the placeholder written by \<^verbatim>\<open>clearLog\<close>, or a line
  with its class (\<open>[]\<close> when \<^verbatim>\<open>addLog\<close> adds none) and its message. The time stamp
  of a line, read from the clock, is left out.
\<close>

datatype log_item = Placeholder | Entry string string

datatype field = SourcePath | OutputPath

text \<open>
  The two globals \<^verbatim>\<open>isScanning\<close> and \<^verbatim>\<open>logStarted\<close>, and the properties of the page's
  elements that the script reads or writes. \<open>thresholdSlider_value\<close> is
  \<^verbatim>\<open>parseInt(thresholdSlider.value)\<close>. A width \<open>Some p\<close> is the string \<^verbatim>\<open>p + "%"\<close> in
  \<^verbatim>\<open>style.width\<close>, as the script assigned it, and \<open>None\<close> a width never assigned;
  \<open>p\<close> is the exact quotient where JavaScript computes in double precision.
\<close>

record renderer_state =
  isScanning :: bool
  logStarted :: bool
  sourcePath_value :: string
  outputPath_value :: string
  thresholdSlider_value :: int
  btnStart_disabled :: bool
  btnCancel_disabled :: bool
  sourcePath_disabled :: bool
  outputPath_disabled :: bool
  btnSource_disabled :: bool
  btnOutput_disabled :: bool
  thresholdSlider_disabled :: bool
  statusText :: string
  progressBar_width :: "rat option"
  progressGlow_width :: "rat option"
  progressCount_text :: count_text
  progressSection_active :: bool
  progressSection_scanning :: bool
  logContainer :: "log_item list"
  summaryBanner_hidden :: bool
  summaryBanner_errors :: bool
  summaryText :: string
  shaken :: "field list"

text \<open>
  A page on which no scan has run yet, with the two path fields and the slider as given.
  The two globals are as the script initialises them; the properties of the elements
  are those of a page with an empty log and a hidden summary.
\<close>

definition initial_renderer :: "string \<Rightarrow> string \<Rightarrow> int \<Rightarrow> renderer_state" where
  "initial_renderer src out thr =
     \<lparr>isScanning = False, logStarted = False, sourcePath_value = src, outputPath_value = out,
      thresholdSlider_value = thr, btnStart_disabled = False, btnCancel_disabled = True,
      sourcePath_disabled = False, outputPath_disabled = False, btnSource_disabled = False,
      btnOutput_disabled = False, thresholdSlider_disabled = False, statusText = [],
      progressBar_width = None, progressGlow_width = None, progressCount_text = NoCount,
      progressSection_active = False, progressSection_scanning = False,
      logContainer = [Placeholder], summaryBanner_hidden = True, summaryBanner_errors = False,
      summaryText = [], shaken = []\<rparr>"

text \<open>\<^verbatim>\<open>setScanning\<close>. The two versions differ in the classes of \<^verbatim>\<open>progressSection\<close>.\<close>

definition setScanning :: "version \<Rightarrow> bool \<Rightarrow> renderer_state \<Rightarrow> renderer_state" where
  "setScanning ver b st =
     (let st1 = st\<lparr>isScanning := b, btnStart_disabled := b, btnCancel_disabled := \<not> b,
                   sourcePath_disabled := b, outputPath_disabled := b, btnSource_disabled := b,
                   btnOutput_disabled := b, thresholdSlider_disabled := b\<rparr>
      in case ver of
           RendererJs \<Rightarrow>
             st1\<lparr>progressSection_active := (b \<or> progressBar_width st \<noteq> Some 0),
                 progressSection_scanning := b\<rparr>
         | Part000 \<Rightarrow>
             (if b then st1\<lparr>progressSection_active := True, progressSection_scanning := True\<rparr>
              else st1\<lparr>progressSection_scanning := False\<rparr>))"

text \<open>The local \<^verbatim>\<open>pct\<close> of \<^verbatim>\<open>setProgress\<close>: \<^verbatim>\<open>total > 0 ? (cur / total) * 100 : 0\<close>.\<close>

definition progress_pct :: "int \<Rightarrow> int \<Rightarrow> rat" where
  "progress_pct cur tot = (if tot > 0 then (of_int cur / of_int tot) * 100 else 0)"

text \<open>
  \<^verbatim>\<open>setProgress\<close>. The first version has no \<^verbatim>\<open>progressGlow\<close> and shows an empty count
  unless \<^verbatim>\<open>total > 0\<close>; the second one always shows the two numbers.
\<close>

definition setProgress :: "version \<Rightarrow> int \<Rightarrow> int \<Rightarrow> renderer_state \<Rightarrow> renderer_state" where
  "setProgress ver cur tot st =
     (let pct = progress_pct cur tot
      in case ver of
           RendererJs \<Rightarrow>
             st\<lparr>progressBar_width := Some pct,
                progressCount_text := (if tot > 0 then CountOf cur tot else NoCount),
                progressSection_active := True\<rparr>
         | Part000 \<Rightarrow>
             st\<lparr>progressBar_width := Some pct,
                progressGlow_width := Some pct,
                progressCount_text := CountOf cur tot,
                progressSection_active := True\<rparr>)"

text \<open>\<^verbatim>\<open>String.prototype.includes\<close>.\<close>

definition str_includes :: "string \<Rightarrow> string \<Rightarrow> bool" where
  "str_includes s sub =
     list_ex (\<lambda>i. take (length sub) (drop i s) = sub) [0 ..< Suc (length s)]"

text \<open>
  \<^verbatim>\<open>addLog(msg, type)\<close>; the type \<open>[]\<close> is a missing or empty argument. The versions
  differ in the class they give to a line that holds \<^verbatim>\<open>Original (kept)\<close>.
\<close>

definition classify :: "version \<Rightarrow> string \<Rightarrow> string" where
  "classify ver msg =
     (if str_includes msg ''Original (kept)''
      then (case ver of RendererJs \<Rightarrow> ''accent'' | Part000 \<Rightarrow> ''highlight'')
      else if str_includes msg ''Done!'' then ''success''
      else if str_includes msg ''Failed'' \<or> str_includes msg ''error'' \<or> str_includes msg ''Error''
      then ''error''
      else [])"

definition addLog :: "version \<Rightarrow> string \<Rightarrow> string \<Rightarrow> renderer_state \<Rightarrow> renderer_state" where
  "addLog ver msg type st =
     (let st1 = (if \<not> logStarted st then st\<lparr>logContainer := [], logStarted := True\<rparr> else st);
          cls = (if type = [] then classify ver msg else type)
      in st1\<lparr>logContainer := logContainer st1 @ [Entry cls msg]\<rparr>)"

definition clearLog :: "renderer_state \<Rightarrow> renderer_state" where
  "clearLog st = st\<lparr>logContainer := [Placeholder], logStarted := False\<rparr>"

text \<open>\<^verbatim>\<open>shake\<close> (\<^verbatim>\<open>shakeElement\<close> in the second version): the animation starts on the field.\<close>

definition shake :: "field \<Rightarrow> renderer_state \<Rightarrow> renderer_state" where
  "shake el st = st\<lparr>shaken := shaken st @ [el]\<rparr>"

text \<open>
  The click handler of \<^verbatim>\<open>btnStart\<close>, up to its call of \<^verbatim>\<open>window.api.startScan\<close>: the new
  state of the page, and the argument of the call when the handler makes it.
\<close>

definition btnStart_onclick ::
  "version \<Rightarrow> renderer_state \<Rightarrow> renderer_state \<times> (string \<times> string \<times> int) option" where
  "btnStart_onclick ver st =
     (let src = trim (sourcePath_value st);
          out = trim (outputPath_value st)
      in if src = [] then (shake SourcePath st, None)
         else if out = [] then (shake OutputPath st, None)
         else if src = out
         then (addLog ver ''Source and output folders cannot be the same.'' ''error'' st, None)
         else (setProgress ver 0 0
                 ((clearLog (setScanning ver True st))\<lparr>summaryBanner_hidden := True\<rparr>),
               Some (src, out, thresholdSlider_value st)))"

text \<open>The callback given to \<^verbatim>\<open>window.api.onBackendEvent\<close>.\<close>

fun onBackendEvent :: "version \<Rightarrow> backend_event \<Rightarrow> renderer_state \<Rightarrow> renderer_state" where
  "onBackendEvent ver (Status m) st = st\<lparr>statusText := m\<rparr>"
| "onBackendEvent ver (Log m) st = addLog ver m [] st"
| "onBackendEvent ver (Progress cur tot) st = setProgress ver cur tot st"
| "onBackendEvent ver (Complete summary errors) st =
     (let st1 = (setScanning ver False st)\<lparr>summaryBanner_hidden := False,
                                           summaryBanner_errors := False\<rparr>;
          st2 = (if errors > 0 then st1\<lparr>summaryBanner_errors := True\<rparr> else st1)
      in st2\<lparr>summaryText := summary\<rparr>)"
| "onBackendEvent ver Cancelled st = setScanning ver False st"
| "onBackendEvent ver (Error m) st = addLog ver m ''error'' st"
| "onBackendEvent ver (ProcessExit code) st =
     (if isScanning st
      then (addLog ver ''Backend process exited unexpectedly.'' ''error''
              (setScanning ver False st))
           \<lparr>statusText := (case ver of RendererJs \<Rightarrow> ''Error''
                                     | Part000 \<Rightarrow> ''Error - process exited'')\<rparr>
      else st)"
| "onBackendEvent ver Other st = st"

text \<open>The events delivered to the renderer, in arrival order.\<close>

fun deliver :: "version \<Rightarrow> backend_event list \<Rightarrow> renderer_state \<Rightarrow> renderer_state" where
  "deliver ver [] st = st"
| "deliver ver (ev # evs) st = deliver ver evs (onBackendEvent ver ev st)"

text \<open>
  The events after which the session is over: \<^verbatim>\<open>complete\<close>, \<^verbatim>\<open>cancelled\<close> and
  \<^verbatim>\<open>process-exit\<close>.
\<close>

fun terminal :: "backend_event \<Rightarrow> bool" where
  "terminal (Complete summary errors) = True"
| "terminal Cancelled = True"
| "terminal (ProcessExit code) = True"
| "terminal ev = False"

text \<open>
  A click on the start button, from the page through the \<^verbatim>\<open>start-scan\<close> handler: the
  handler runs only when the click handler calls \<^verbatim>\<open>window.api.startScan\<close>.
\<close>

definition click_start ::
  "version \<Rightarrow> bool \<Rightarrow> renderer_state \<times> main_state \<Rightarrow> js_error + (renderer_state \<times> main_state)" where
  "click_start ver w sys =
     (case btnStart_onclick ver (fst sys) of
        (rs, None) \<Rightarrow> Inr (rs, snd sys)
      | (rs, Some (src, out, thr)) \<Rightarrow>
          (case start_scan w src out thr (snd sys) of
             Inl e \<Rightarrow> Inl e
           | Inr (accepted, ms) \<Rightarrow> Inr (rs, ms)))"

section \<open>Notions used to state the properties\<close>

text \<open>The events that a list of output lines decodes to: the lines that parse, in order.\<close>

definition decoded ::
  "(string \<Rightarrow> js_error + backend_event) \<Rightarrow> string list \<Rightarrow> backend_event list" where
  "decoded parse ls =
     List.map_filter (\<lambda>l. case parse l of Inl e \<Rightarrow> None | Inr msg \<Rightarrow> Some msg) ls"

text \<open>
  A decoder for evaluating the handlers at concrete lines. It does what \<^verbatim>\<open>JSON.parse\<close>
  and the reading of the \<^verbatim>\<open>event\<close> field do at the lines used below: the line of the
  \<^verbatim>\<open>cancelled\<close> event; the lines \<^verbatim>\<open>42\<close> and \<^verbatim>\<open>{}\<close>, which are JSON and hold no
  record with an \<^verbatim>\<open>event\<close> field; and a line of a Python traceback, which is no JSON.
  Every line it does not know it treats as no JSON.
\<close>

definition cancelled_line :: string where
  \<open>cancelled_line = ''{"event":"cancelled"}''\<close>

definition sample_parse :: "string \<Rightarrow> js_error + backend_event" where
  "sample_parse l =
     (if l = cancelled_line then Inr Cancelled
      else if l = ''42'' \<or> l = ''{}'' then Inr Other
      else Inl SyntaxError)"

text \<open>
  A sequence of calls of the \<^verbatim>\<open>start-scan\<close> handler, each with its \<^verbatim>\<open>source\<close>,
  \<^verbatim>\<open>output\<close> and \<^verbatim>\<open>threshold\<close>: the values the calls return, and the last state.
\<close>

fun start_scans ::
  "bool \<Rightarrow> (string \<times> string \<times> int) list \<Rightarrow> main_state
    \<Rightarrow> js_error + (bool list \<times> main_state)" where
  "start_scans w [] st = Inr ([], st)"
| "start_scans w ((src, out, thr) # reqs) st =
     (case start_scan w src out thr st of
        Inl e \<Rightarrow> Inl e
      | Inr (a, st1) \<Rightarrow>
          (case start_scans w reqs st1 of
             Inl e \<Rightarrow> Inl e
           | Inr (as, st2) \<Rightarrow> Inr (a # as, st2)))"

text \<open>The entry of the input log for the scan command of a request sent to child \<open>c\<close>.\<close>

definition scan_of :: "nat \<Rightarrow> string \<times> string \<times> int \<Rightarrow> nat \<times> command" where
  "scan_of c req = (case req of (src, out, thr) \<Rightarrow> (c, Scan src out thr))"

text \<open>
  Concrete states of the main process: the window open and no worker yet; the window
  open and a worker with a writable input stream; that state after the user closed the
  window.
\<close>

definition main_open :: main_state where
  "main_open = createWindow initial_main"

definition main_working :: main_state where
  "main_working = spawnPython True main_open"

definition main_closed :: main_state where
  "main_closed = on_window_closed main_working"

text \<open>The window open and a live worker whose input stream is no longer writable.\<close>

definition main_unwritable :: main_state where
  "main_unwritable = main_working\<lparr>pythonProcess := Some \<lparr>cid = 0, stdin_writable = False\<rparr>\<rparr>"

text \<open>
  A concrete state of the page: the start button clicked with the folders \<^verbatim>\<open>/a\<close> and
  \<^verbatim>\<open>/b\<close>, so that a scan is running.
\<close>

definition renderer_running :: "version \<Rightarrow> renderer_state" where
  "renderer_running ver = fst (btnStart_onclick ver (initial_renderer ''/a'' ''/b'' 10))"

section \<open>Facts about the handlers of the main process\<close>

lemma window_live_on_line: "window_live (on_line parse l st) = window_live st"
  by (simp add: on_line_def on_line_try_def window_live_def send_backend_event_def
      split: sum.splits)

lemma on_lines_append:
  "on_lines parse (xs @ ys) st = on_lines parse ys (on_lines parse xs st)"
  by (induction xs arbitrary: st) simp_all

lemma on_lines_events:
  "window_live st \<Longrightarrow> backend_events (on_lines parse ls st) = backend_events st @ decoded parse ls"
proof (induction ls arbitrary: st)
  case Nil
  then show ?case by (simp add: decoded_def)
next
  case (Cons l ls)
  have live: "window_live (on_line parse l st)"
    using Cons.prems by (simp add: window_live_on_line)
  show ?case
    using Cons.IH [OF live] Cons.prems
    by (simp add: on_line_def on_line_try_def send_backend_event_def decoded_def
        split: sum.splits)
qed

lemma main_open_simps:
  "mainWindow main_open = Some \<lparr>isDestroyed = False\<rparr>" "pythonProcess main_open = None"
  "spawned main_open = 0" "stdin_log main_open = []" "killed main_open = []"
  "backend_events main_open = []" "now main_open = 0" "timers main_open = []"
  by (simp_all add: main_open_def createWindow_def initial_main_def)

lemma main_working_simps:
  "mainWindow main_working = Some \<lparr>isDestroyed = False\<rparr>"
  "pythonProcess main_working = Some \<lparr>cid = 0, stdin_writable = True\<rparr>"
  "spawned main_working = 1" "stdin_log main_working = []" "killed main_working = []"
  "backend_events main_working = []" "now main_working = 0" "timers main_working = []"
  by (simp_all add: main_working_def spawnPython_def main_open_simps)

lemma main_closed_simps:
  "mainWindow main_closed = None"
  "pythonProcess main_closed = Some \<lparr>cid = 0, stdin_writable = True\<rparr>"
  "spawned main_closed = 1" "stdin_log main_closed = [(0, Quit)]" "killed main_closed = []"
  "backend_events main_closed = []" "now main_closed = 0" "timers main_closed = [1000]"
  by (simp_all add: main_closed_def on_window_closed_def killPython_def stdin_write_def
      main_working_simps)

text \<open>The start-scan handler returns \<^verbatim>\<open>true\<close> in every state.\<close>

lemma start_scan_live:
  "pythonProcess st = Some p \<Longrightarrow> stdin_writable p \<Longrightarrow>
   start_scan w src out thr st
     = Inr (True, st\<lparr>stdin_log := stdin_log st @ [(cid p, Scan src out thr)]\<rparr>)"
  by (simp add: start_scan_def sendToPython_def spawnPython_def stdin_write_def)

lemma start_scan_accepts: "\<exists>st'. start_scan w src out thr st = Inr (True, st')"
  by (cases "pythonProcess st"; cases w)
    (auto simp: start_scan_def sendToPython_def spawnPython_def stdin_write_def)

lemma start_scans_accept:
  "\<exists>st'. start_scans w reqs st = Inr (replicate (length reqs) True, st')"
proof (induction reqs arbitrary: st)
  case Nil
  show ?case by simp
next
  case (Cons req reqs)
  obtain src out thr where req: "req = (src, out, thr)" by (cases req)
  obtain st1 where one: "start_scan w src out thr st = Inr (True, st1)"
    using start_scan_accepts by blast
  obtain st2 where rest: "start_scans w reqs st1 = Inr (replicate (length reqs) True, st2)"
    using Cons.IH by blast
  show ?case by (simp add: req one rest)
qed

lemma start_scans_live:
  "pythonProcess st = Some p \<Longrightarrow> stdin_writable p \<Longrightarrow>
   start_scans w reqs st
     = Inr (replicate (length reqs) True,
            st\<lparr>stdin_log := stdin_log st @ map (scan_of (cid p)) reqs\<rparr>)"
proof (induction reqs arbitrary: st)
  case Nil
  show ?case by simp
next
  case (Cons req reqs)
  obtain src out thr where req: "req = (src, out, thr)" by (cases req)
  let ?st1 = "st\<lparr>stdin_log := stdin_log st @ [(cid p, Scan src out thr)]\<rparr>"
  have one: "start_scan w src out thr st = Inr (True, ?st1)"
    using Cons.prems by (rule start_scan_live)
  have "pythonProcess ?st1 = Some p" using Cons.prems by simp
  from Cons.IH [OF this Cons.prems(2)]
  show ?case by (simp add: req one scan_of_def)
qed

text \<open>The timeouts of \<^verbatim>\<open>killPython\<close>: the first one that finds a worker kills it.\<close>

lemma timeouts_without_worker:
  "pythonProcess st = None \<Longrightarrow> fold (\<lambda>d. on_timeout) ds st = st"
  by (induction ds) (simp_all add: on_timeout_def)

lemma timeouts_with_worker:
  assumes "pythonProcess st = Some p" and "ds \<noteq> []"
  shows "fold (\<lambda>d. on_timeout) ds st = st\<lparr>killed := killed st @ [cid p], pythonProcess := None\<rparr>"
proof (cases ds)
  case Nil
  with assms show ?thesis by simp
next
  case (Cons d ds')
  have first: "on_timeout st = st\<lparr>killed := killed st @ [cid p], pythonProcess := None\<rparr>"
    using assms(1) by (simp add: on_timeout_def)
  have "pythonProcess (on_timeout st) = None"
    by (simp add: first)
  then have "fold (\<lambda>d. on_timeout) ds' (on_timeout st) = on_timeout st"
    by (rule timeouts_without_worker)
  with Cons first show ?thesis by simp
qed

lemma killPython_live:
  "pythonProcess st = Some p \<Longrightarrow>
   killPython st
     = st\<lparr>stdin_log := stdin_log st @ (if stdin_writable p then [(cid p, Quit)] else []),
          timers := timers st @ [now st + 1000]\<rparr>"
  by (simp add: killPython_def stdin_write_def)

lemma killPython_fields:
  "pythonProcess (killPython st) = pythonProcess st"
  "killed (killPython st) = killed st"
  "now (killPython st) = now st"
  "backend_events (killPython st) = backend_events st"
  "spawned (killPython st) = spawned st"
  by (simp_all add: killPython_def stdin_write_def split: option.splits)

lemma killPython_timers:
  "pythonProcess st = Some p \<Longrightarrow> timers (killPython st) = timers st @ [now st + 1000]"
  by (simp add: killPython_live)

lemma advance_kills:
  assumes "pythonProcess st = Some p" and "\<exists>d \<in> set (timers st). d \<le> now st + dt"
  shows "pythonProcess (advance dt st) = None \<and> killed (advance dt st) = killed st @ [cid p]"
proof -
  have "filter (\<lambda>d. d \<le> now st + dt) (timers st) \<noteq> []"
    using assms(2) by (simp add: filter_empty_conv)
  then show ?thesis
    using assms(1) by (simp add: advance_def Let_def timeouts_with_worker)
qed

lemma advance_without_worker:
  "pythonProcess st = None \<Longrightarrow>
   pythonProcess (advance dt st) = None \<and> killed (advance dt st) = killed st"
  by (simp add: advance_def Let_def timeouts_without_worker)

lemma advance_too_early:
  assumes "\<forall>d \<in> set (timers st). now st + dt < d"
  shows "pythonProcess (advance dt st) = pythonProcess st \<and> killed (advance dt st) = killed st"
proof -
  have "filter (\<lambda>d. d \<le> now st + dt) (timers st) = []"
    using assms by (auto simp: filter_empty_conv)
  then show ?thesis by (simp add: advance_def Let_def)
qed

section \<open>Facts about the handlers of the renderer\<close>

lemma setScanning_flags:
  "isScanning (setScanning ver b st) = b" "btnStart_disabled (setScanning ver b st) = b"
  by (simp_all add: setScanning_def Let_def split: version.splits)

lemma addLog_flags:
  "isScanning (addLog ver m ty st) = isScanning st"
  "btnStart_disabled (addLog ver m ty st) = btnStart_disabled st"
  by (simp_all add: addLog_def Let_def)

lemma setProgress_flags:
  "isScanning (setProgress ver c t st) = isScanning st"
  "btnStart_disabled (setProgress ver c t st) = btnStart_disabled st"
  by (simp_all add: setProgress_def Let_def split: version.splits)

lemma clearLog_flags:
  "isScanning (clearLog st) = isScanning st"
  "btnStart_disabled (clearLog st) = btnStart_disabled st"
  by (simp_all add: clearLog_def)

lemmas flags = setScanning_flags addLog_flags setProgress_flags clearLog_flags

lemma nonterminal_keeps:
  "\<not> terminal ev \<Longrightarrow>
   isScanning (onBackendEvent ver ev st) = isScanning st
   \<and> btnStart_disabled (onBackendEvent ver ev st) = btnStart_disabled st"
  by (cases ev) (simp_all add: flags)

lemma terminal_stops:
  "terminal ev \<Longrightarrow> isScanning st \<Longrightarrow>
   \<not> isScanning (onBackendEvent ver ev st) \<and> \<not> btnStart_disabled (onBackendEvent ver ev st)"
  by (cases ev) (simp_all add: flags Let_def)

lemma never_restarts: "\<not> isScanning st \<Longrightarrow> \<not> isScanning (onBackendEvent ver ev st)"
  by (cases ev) (simp_all add: flags Let_def)

lemma deliver_append: "deliver ver (xs @ ys) st = deliver ver ys (deliver ver xs st)"
  by (induction xs arbitrary: st) simp_all

lemma deliver_nonterminal:
  "\<forall>ev \<in> set evs. \<not> terminal ev \<Longrightarrow>
   isScanning (deliver ver evs st) = isScanning st
   \<and> btnStart_disabled (deliver ver evs st) = btnStart_disabled st"
  by (induction evs arbitrary: st) (simp_all add: nonterminal_keeps)

lemma deliver_never_restarts: "\<not> isScanning st \<Longrightarrow> \<not> isScanning (deliver ver evs st)"
  by (induction evs arbitrary: st) (simp_all add: never_restarts)

lemma onclick_accepted:
  "btnStart_onclick ver rs = (rs1, Some req) \<Longrightarrow> isScanning rs1 \<and> btnStart_disabled rs1"
  by (auto simp: btnStart_onclick_def Let_def flags split: if_splits)

lemma trim_samples:
  "trim ''/a'' = ''/a''" "trim ''/b'' = ''/b''" "trim '' /x'' = ''/x''" "trim ''/x  '' = ''/x''"
  "trim (''/x'' @ [CHR 0xC2, CHR 0xA0]) = ''/x''" "trim [CHR 0xEF, CHR 0xBB, CHR 0xBF] = []"
  by code_simp+

lemma renderer_running_flags:
  "btnStart_onclick ver (initial_renderer ''/a'' ''/b'' 10)
     = (renderer_running ver, Some (''/a'', ''/b'', 10))"
  "isScanning (renderer_running ver)" "btnStart_disabled (renderer_running ver)"
  by (simp_all add: renderer_running_def btnStart_onclick_def initial_renderer_def trim_samples
      Let_def flags)

section \<open>C1: a second start while a scan runs\<close>

text \<open>
  Claim C1, as the code has it. The \<^verbatim>\<open>start-scan\<close> handler rejects nothing: every call
  of a sequence returns \<^verbatim>\<open>true\<close>, and with a live worker whose input stream is writable
  every call's scan command is written to that worker, whether a scan is running or not.
  What keeps a second scan from starting is the page: an accepted click on the start
  button sets \<^verbatim>\<open>isScanning\<close> and disables the button, both stay so while the events
  that arrive are not terminal, and the first terminal event enables the button again.
\<close>

theorem start_scan_always_accepted:
  "(\<exists>st'. start_scans w reqs st = Inr (replicate (length reqs) True, st'))
   \<and> (pythonProcess st = Some p \<and> stdin_writable p \<longrightarrow>
        start_scans w reqs st
          = Inr (replicate (length reqs) True,
                 st\<lparr>stdin_log := stdin_log st @ map (scan_of (cid p)) reqs\<rparr>))
   \<and> (btnStart_onclick ver rs = (rs1, Some req) \<and> (\<forall>ev \<in> set evs. \<not> terminal ev) \<longrightarrow>
        isScanning (deliver ver evs rs1) \<and> btnStart_disabled (deliver ver evs rs1)
        \<and> (terminal t \<longrightarrow> \<not> btnStart_disabled (deliver ver (evs @ [t]) rs1)))"
proof -
  have a: "\<exists>st'. start_scans w reqs st = Inr (replicate (length reqs) True, st')"
    by (rule start_scans_accept)
  have b: "start_scans w reqs st
          = Inr (replicate (length reqs) True,
                 st\<lparr>stdin_log := stdin_log st @ map (scan_of (cid p)) reqs\<rparr>)"
    if "pythonProcess st = Some p" "stdin_writable p"
    using that by (rule start_scans_live)
  have c: "isScanning (deliver ver evs rs1) \<and> btnStart_disabled (deliver ver evs rs1)
        \<and> (terminal t \<longrightarrow> \<not> btnStart_disabled (deliver ver (evs @ [t]) rs1))"
    if click: "btnStart_onclick ver rs = (rs1, Some req)"
      and quiet: "\<forall>ev \<in> set evs. \<not> terminal ev"
  proof -
    have run: "isScanning (deliver ver evs rs1) \<and> btnStart_disabled (deliver ver evs rs1)"
      using onclick_accepted [OF click] deliver_nonterminal [OF quiet] by simp
    then show ?thesis
      by (simp add: deliver_append terminal_stops)
  qed
  from a b c show ?thesis by blast
qed

text \<open>
  Claim C1 at concrete inputs: two calls of the handler with a live worker, and a click
  on the start button followed by a status, a progress and a \<^verbatim>\<open>cancelled\<close> event.
\<close>

theorem start_scan_always_accepted_witness:
  "pythonProcess main_working = Some \<lparr>cid = 0, stdin_writable = True\<rparr>
   \<and> start_scans True [(''/a'', ''/b'', 15), (''/c'', ''/d'', 15)] main_working
       = Inr ([True, True],
              main_working\<lparr>stdin_log := [(0, Scan ''/a'' ''/b'' 15), (0, Scan ''/c'' ''/d'' 15)]\<rparr>)
   \<and> btnStart_onclick RendererJs (initial_renderer ''/a'' ''/b'' 10)
       = (renderer_running RendererJs, Some (''/a'', ''/b'', 10))
   \<and> btnStart_disabled
        (deliver RendererJs [Status ''Scanning'', Progress 1 2] (renderer_running RendererJs))
   \<and> \<not> btnStart_disabled
        (deliver RendererJs [Status ''Scanning'', Progress 1 2, Cancelled]
           (renderer_running RendererJs))"
proof -
  have quiet: "\<forall>ev \<in> set [Status ''Scanning'', Progress 1 2]. \<not> terminal ev" by simp
  note inst = start_scan_always_accepted
      [of True "[(''/a'', ''/b'', 15), (''/c'', ''/d'', 15)]" main_working
          "\<lparr>cid = 0, stdin_writable = True\<rparr>" RendererJs "initial_renderer ''/a'' ''/b'' 10"
          "renderer_running RendererJs" "(''/a'', ''/b'', 10)"
          "[Status ''Scanning'', Progress 1 2]" Cancelled]
  have a: "start_scans True [(''/a'', ''/b'', 15), (''/c'', ''/d'', 15)] main_working
       = Inr ([True, True],
              main_working\<lparr>stdin_log := [(0, Scan ''/a'' ''/b'' 15), (0, Scan ''/c'' ''/d'' 15)]\<rparr>)"
    using inst by (simp del: start_scans.simps add: main_working_simps scan_of_def)
  have b: "btnStart_disabled
        (deliver RendererJs [Status ''Scanning'', Progress 1 2] (renderer_running RendererJs))
   \<and> \<not> btnStart_disabled
        (deliver RendererJs ([Status ''Scanning'', Progress 1 2] @ [Cancelled])
           (renderer_running RendererJs))"
    using inst quiet
    by (simp del: deliver.simps onBackendEvent.simps add: renderer_running_flags)
  from a b show ?thesis
    by (simp del: deliver.simps start_scans.simps add: main_working_simps renderer_running_flags)
qed

text \<open>
  Claim C1 fails as stated: from the state with no worker, the first call of the
  \<^verbatim>\<open>start-scan\<close> handler is accepted, no event arrives, and the second call is
  accepted as well; both scan commands are written to the worker.
\<close>

theorem start_scan_counterexample:
  "start_scans True [(''/a'', ''/b'', 15), (''/c'', ''/d'', 15)] main_open
     = Inr ([True, True],
            main_open\<lparr>pythonProcess := Some \<lparr>cid = 0, stdin_writable = True\<rparr>, spawned := 1,
                      stdin_log := [(0, Scan ''/a'' ''/b'' 15), (0, Scan ''/c'' ''/d'' 15)]\<rparr>)"
  by (simp add: start_scan_def sendToPython_def spawnPython_def stdin_write_def main_open_simps)

section \<open>C2: events after the end of a scan\<close>

text \<open>
  Claim C2, as the code has it. While a scan runs and the events that arrive are not
  terminal, \<^verbatim>\<open>isScanning\<close> stays set. The first \<^verbatim>\<open>complete\<close>, \<^verbatim>\<open>cancelled\<close> or
  \<^verbatim>\<open>process-exit\<close> event clears it, and no event that arrives later sets it again, so
  the page leaves the running state once. A \<^verbatim>\<open>process-exit\<close> event that arrives after
  that changes nothing at all. (Other late events are still handled; the theorem says
  nothing of what they display.)
\<close>

theorem first_terminal_event_ends_session:
  assumes "isScanning st" and "\<forall>ev \<in> set evs. \<not> terminal ev" and "terminal t"
  shows "isScanning (deliver ver evs st)
    \<and> \<not> isScanning (deliver ver (evs @ [t]) st)
    \<and> \<not> isScanning (deliver ver (evs @ t # later) st)
    \<and> onBackendEvent ver (ProcessExit code) (deliver ver (evs @ t # later) st)
        = deliver ver (evs @ t # later) st"
proof -
  have run: "isScanning (deliver ver evs st)"
    using assms(1) deliver_nonterminal [OF assms(2)] by simp
  have stop: "\<not> isScanning (deliver ver (evs @ [t]) st)"
    using run assms(3) by (simp add: deliver_append terminal_stops)
  have "deliver ver (evs @ t # later) st = deliver ver later (deliver ver (evs @ [t]) st)"
    by (simp add: deliver_append)
  with stop have idle: "\<not> isScanning (deliver ver (evs @ t # later) st)"
    by (simp add: deliver_never_restarts)
  from run stop idle show ?thesis by simp
qed

text \<open>
  Claim C2 at a concrete run of the second version: a status and a progress event, then
  \<^verbatim>\<open>complete\<close>, then a late error and the exit of the process.
\<close>

theorem first_terminal_event_ends_session_witness:
  "isScanning (renderer_running Part000)
   \<and> isScanning (deliver Part000 [Status ''Scanning'', Progress 1 2] (renderer_running Part000))
   \<and> \<not> isScanning (deliver Part000 [Status ''Scanning'', Progress 1 2, Complete ''Done!'' 0]
        (renderer_running Part000))
   \<and> \<not> isScanning (deliver Part000
        [Status ''Scanning'', Progress 1 2, Complete ''Done!'' 0, Error ''late'',
         ProcessExit (Some 0)]
        (renderer_running Part000))"
proof -
  have quiet: "\<forall>ev \<in> set [Status ''Scanning'', Progress 1 2]. \<not> terminal ev" by simp
  have last: "terminal (Complete ''Done!'' 0)" by simp
  have run: "isScanning (renderer_running Part000)" by (rule renderer_running_flags)
  show ?thesis
    using first_terminal_event_ends_session
      [OF run quiet last, of Part000 "[Error ''late'', ProcessExit (Some 0)]" "Some 0"] run
    by (simp del: deliver.simps onBackendEvent.simps)
qed

text \<open>
  Claim C2 fails as stated: after the first \<^verbatim>\<open>complete\<close> event of a running scan, a
  second \<^verbatim>\<open>complete\<close> event is handled again and replaces the summary, and a status
  event after \<^verbatim>\<open>cancelled\<close> replaces the status text.
\<close>

theorem later_events_counterexample:
  "isScanning (renderer_running RendererJs)
   \<and> summaryText (deliver RendererJs [Complete ''first'' 0] (renderer_running RendererJs))
       = ''first''
   \<and> summaryText (deliver RendererJs [Complete ''first'' 0, Complete ''second'' 2]
        (renderer_running RendererJs)) = ''second''
   \<and> statusText (deliver RendererJs [Cancelled, Status ''Hashing''] (renderer_running RendererJs))
       = ''Hashing''"
  by (simp add: renderer_running_flags Let_def setScanning_def)

section \<open>C3: lines that do not parse, and lines that parse to no record\<close>

text \<open>
  Claim C3, as the code has it. A line of the worker's output at which \<^verbatim>\<open>JSON.parse\<close>
  throws raises its exception inside the \<^verbatim>\<open>try\<close> only: the handler returns with the
  state unchanged, so no event reaches the renderer for it. The stream goes on: a run of
  lines with such a line in it ends in the same state as the run without it, and with a
  live window the events sent are exactly the decoded lines of the rest, in order. A line
  that parses is sent to a live window whatever it parsed to, since the handler does not
  look at the value; a value that is no record of the protocol reaches the renderer,
  where no case of the \<^verbatim>\<open>switch\<close> matches and the page stays as it is.
\<close>

theorem non_json_line_dropped:
  assumes "parse line = Inl e"
  shows "on_line_try parse line st = Inl e
    \<and> on_line parse line st = st
    \<and> on_lines parse (before @ line # after) st = on_lines parse (before @ after) st
    \<and> decoded parse (before @ line # after) = decoded parse (before @ after)
    \<and> (window_live st \<longrightarrow>
         backend_events (on_lines parse (before @ line # after) st)
           = backend_events st @ decoded parse (before @ after))
    \<and> (parse parsed = Inr msg \<and> window_live st \<longrightarrow>
         backend_events (on_line parse parsed st) = backend_events st @ [msg])
    \<and> onBackendEvent ver Other rs = rs"
proof -
  have raised: "on_line_try parse line st' = Inl e" for st'
    using assms by (simp add: on_line_try_def)
  have one: "on_line parse line st' = st'" for st'
    by (simp add: on_line_def raised)
  have run: "on_lines parse (before @ line # after) st = on_lines parse (before @ after) st"
    by (simp add: on_lines_append one)
  have dec: "decoded parse (before @ line # after) = decoded parse (before @ after)"
    using assms by (simp add: decoded_def map_filter_def)
  have sent: "backend_events (on_lines parse (before @ line # after) st)
           = backend_events st @ decoded parse (before @ after)" if "window_live st"
    using that run by (simp add: on_lines_events)
  have passed: "backend_events (on_line parse parsed st) = backend_events st @ [msg]"
    if "parse parsed = Inr msg" "window_live st"
    using that by (simp add: on_line_def on_line_try_def send_backend_event_def)
  have ignored: "onBackendEvent ver Other rs = rs"
    by simp
  from raised one run dec sent passed ignored show ?thesis by blast
qed

text \<open>
  Claim C3 at a concrete stream: a line of a Python traceback between the line of the
  \<^verbatim>\<open>cancelled\<close> event and the line \<^verbatim>\<open>42\<close>, with the window open. The traceback is
  dropped; the other two lines are sent, the second as a value that is no event of the
  protocol.
\<close>

theorem non_json_line_dropped_witness:
  "sample_parse ''Traceback (most recent call last):'' = Inl SyntaxError
   \<and> on_line sample_parse ''Traceback (most recent call last):'' main_working = main_working
   \<and> backend_events
        (on_lines sample_parse
           [cancelled_line, ''Traceback (most recent call last):'', ''42''] main_working)
       = [Cancelled, Other]"
proof -
  have bad: "sample_parse ''Traceback (most recent call last):'' = Inl SyntaxError"
    by (simp add: sample_parse_def cancelled_line_def)
  have live: "window_live main_working"
    by (simp add: window_live_def main_working_simps)
  have dec: "decoded sample_parse [cancelled_line, ''42''] = [Cancelled, Other]"
    by (simp add: decoded_def sample_parse_def cancelled_line_def)
  note dropped = non_json_line_dropped
      [of sample_parse "''Traceback (most recent call last):''" SyntaxError main_working
        "[cancelled_line]" "[''42'']" "''42''" Other RendererJs "renderer_running RendererJs",
        OF bad]
  from dropped have one:
    "on_line sample_parse ''Traceback (most recent call last):'' main_working = main_working"
    by blast
  from dropped have
    "window_live main_working \<longrightarrow>
       backend_events
         (on_lines sample_parse
            ([cancelled_line] @ ''Traceback (most recent call last):'' # [''42''])
            main_working)
        = backend_events main_working @ decoded sample_parse ([cancelled_line] @ [''42''])"
    by (elim conjE)
  with live dec have sent:
    "backend_events
       (on_lines sample_parse
          [cancelled_line, ''Traceback (most recent call last):'', ''42''] main_working)
      = [Cancelled, Other]"
    by (simp del: on_lines.simps add: main_working_simps)
  from bad one sent show ?thesis by blast
qed

text \<open>
  Claim C3 fails as stated: the lines \<^verbatim>\<open>42\<close> and \<^verbatim>\<open>{}\<close> are not records of the
  protocol, yet they parse, and with the window open the handler sends what they parsed
  to on to the renderer.
\<close>

theorem parsed_non_record_counterexample:
  "sample_parse ''42'' = Inr Other
   \<and> backend_events (on_line sample_parse ''42'' main_working) = [Other]
   \<and> sample_parse ''{}'' = Inr Other
   \<and> backend_events (on_line sample_parse ''{}'' main_working) = [Other]"
  by (simp add: sample_parse_def cancelled_line_def on_line_def on_line_try_def window_live_def
      send_backend_event_def main_working_simps)

section \<open>C4: shutting the worker down\<close>

text \<open>
  Claim C4, as the code has it. With a live worker, \<^verbatim>\<open>killPython\<close> writes the quit
  command if the input stream takes it (a failed write is caught and ignored) and sets a
  timeout due 1000 ms later. When at least 1000 ms pass with the worker still live, the
  timeout calls \<^verbatim>\<open>kill()\<close> on it once and clears \<^verbatim>\<open>pythonProcess\<close>; with no older timeout
  pending, nothing is killed before that. When the worker's exit is handled first, the
  timeout kills nothing. A second call of \<^verbatim>\<open>killPython\<close> on the still live worker writes
  a second quit command and sets a second timeout, and the worker is still killed once.
  With no live worker \<^verbatim>\<open>killPython\<close> changes nothing.
\<close>

theorem shutdown_grace_period:
  assumes "pythonProcess st = Some p"
  shows "killPython st
      = st\<lparr>stdin_log := stdin_log st @ (if stdin_writable p then [(cid p, Quit)] else []),
           timers := timers st @ [now st + 1000]\<rparr>
    \<and> (1000 \<le> dt \<longrightarrow>
         pythonProcess (advance dt (killPython st)) = None
         \<and> killed (advance dt (killPython st)) = killed st @ [cid p])
    \<and> (timers st = [] \<and> dt < 1000 \<longrightarrow>
         pythonProcess (advance dt (killPython st)) = Some p
         \<and> killed (advance dt (killPython st)) = killed st)
    \<and> pythonProcess (advance dt (on_close code (killPython st))) = None
    \<and> killed (advance dt (on_close code (killPython st))) = killed st
    \<and> stdin_log (killPython (killPython st))
        = stdin_log st @ (if stdin_writable p then [(cid p, Quit), (cid p, Quit)] else [])
    \<and> timers (killPython (killPython st)) = timers st @ [now st + 1000, now st + 1000]
    \<and> (1000 \<le> dt \<longrightarrow>
         pythonProcess (advance dt (killPython (killPython st))) = None
         \<and> killed (advance dt (killPython (killPython st))) = killed st @ [cid p])
    \<and> (pythonProcess st0 = None \<longrightarrow> killPython st0 = st0)"
proof -
  have live1: "pythonProcess (killPython st) = Some p"
    using assms by (simp add: killPython_fields)
  have live2: "pythonProcess (killPython (killPython st)) = Some p"
    using live1 by (simp add: killPython_fields)
  have t1: "timers (killPython st) = timers st @ [now st + 1000]"
    using assms by (rule killPython_timers)
  have t2: "timers (killPython (killPython st)) = timers st @ [now st + 1000, now st + 1000]"
    using killPython_timers [OF live1] t1 by (simp add: killPython_fields)
  have a: "killPython st
      = st\<lparr>stdin_log := stdin_log st @ (if stdin_writable p then [(cid p, Quit)] else []),
           timers := timers st @ [now st + 1000]\<rparr>"
    using assms by (rule killPython_live)
  have b: "pythonProcess (advance dt (killPython st)) = None
         \<and> killed (advance dt (killPython st)) = killed st @ [cid p]" if "1000 \<le> dt"
    using advance_kills [OF live1, of dt] that by (simp add: t1 killPython_fields)
  have c: "pythonProcess (advance dt (killPython st)) = Some p
         \<and> killed (advance dt (killPython st)) = killed st" if "timers st = []" "dt < 1000"
    using advance_too_early [of "killPython st" dt] that live1
    by (simp add: t1 killPython_fields)
  have closed: "pythonProcess (on_close code (killPython st)) = None"
    by (simp add: on_close_def send_backend_event_def Let_def)
  have d: "pythonProcess (advance dt (on_close code (killPython st))) = None
    \<and> killed (advance dt (on_close code (killPython st))) = killed st"
    using advance_without_worker [OF closed, of dt]
    by (simp add: on_close_def send_backend_event_def Let_def killPython_fields)
  have e: "stdin_log (killPython (killPython st))
        = stdin_log st @ (if stdin_writable p then [(cid p, Quit), (cid p, Quit)] else [])"
    using killPython_live [OF live1] killPython_live [OF assms] by simp
  have f: "pythonProcess (advance dt (killPython (killPython st))) = None
         \<and> killed (advance dt (killPython (killPython st))) = killed st @ [cid p]"
    if "1000 \<le> dt"
    using advance_kills [OF live2, of dt] that by (simp add: t2 killPython_fields)
  have g: "pythonProcess st0 = None \<longrightarrow> killPython st0 = st0"
    by (simp add: killPython_def)
  from a b c d e t2 f g show ?thesis by blast
qed

text \<open>
  Claim C4 at the state with a live worker: the quit command and the timeout; the kill
  after 1000 ms and none after 999 ms; no kill when the worker exits first; and no change
  with no worker.
\<close>

theorem shutdown_grace_period_witness:
  "pythonProcess main_working = Some \<lparr>cid = 0, stdin_writable = True\<rparr>
   \<and> stdin_log (killPython main_working) = [(0, Quit)]
   \<and> timers (killPython main_working) = [1000]
   \<and> pythonProcess (advance 1000 (killPython main_working)) = None
   \<and> killed (advance 1000 (killPython main_working)) = [0]
   \<and> pythonProcess (advance 999 (killPython main_working))
       = Some \<lparr>cid = 0, stdin_writable = True\<rparr>
   \<and> killed (advance 999 (killPython main_working)) = []
   \<and> killed (advance 1000 (on_close (Some 0) (killPython main_working))) = []
   \<and> killPython main_open = main_open"
proof -
  have live: "pythonProcess main_working = Some \<lparr>cid = 0, stdin_writable = True\<rparr>"
    by (simp add: main_working_simps)
  have none: "pythonProcess main_open = None"
    by (simp add: main_open_simps)
  note at_deadline = shutdown_grace_period [OF live, of 1000 "Some 0" main_open]
  note before = shutdown_grace_period [OF live, of 999 "Some 0" main_open]
  have quit: "stdin_log (killPython main_working) = [(0, Quit)]
      \<and> timers (killPython main_working) = [1000]"
    using at_deadline [THEN conjunct1] by (simp add: main_working_simps)
  have unchanged: "killPython main_open = main_open"
    using at_deadline none by blast
  from live quit unchanged at_deadline [THEN conjunct2] before [THEN conjunct2]
  show ?thesis
    by (simp add: main_working_simps)
qed

text \<open>
  Claim C4 fails as stated in its last part: \<^verbatim>\<open>killPython\<close> is not idempotent on a live
  worker. Closing the window runs the handler of \<^verbatim>\<open>closed\<close> and then the handler of
  \<^verbatim>\<open>window-all-closed\<close>, each of which calls it: the quit command is written twice and
  two timeouts are pending, where one call leaves one of each.
\<close>

theorem shutdown_twice_counterexample:
  "stdin_log (killPython main_working) = [(0, Quit)]
   \<and> timers (killPython main_working) = [1000]
   \<and> stdin_log (killPython (killPython main_working)) = [(0, Quit), (0, Quit)]
   \<and> timers (killPython (killPython main_working)) = [1000, 1000]
   \<and> killPython (killPython main_working) \<noteq> killPython main_working
   \<and> stdin_log (on_window_all_closed (on_window_closed main_working)) = [(0, Quit), (0, Quit)]
   \<and> timers (on_window_all_closed (on_window_closed main_working)) = [1000, 1000]"
proof -
  have once: "stdin_log (killPython main_working) = [(0, Quit)]
      \<and> timers (killPython main_working) = [1000]"
    by (simp add: killPython_def stdin_write_def main_working_simps)
  have twice: "stdin_log (killPython (killPython main_working)) = [(0, Quit), (0, Quit)]
      \<and> timers (killPython (killPython main_working)) = [1000, 1000]"
    by (simp add: killPython_def stdin_write_def main_working_simps)
  have differ: "killPython (killPython main_working) \<noteq> killPython main_working"
  proof
    assume "killPython (killPython main_working) = killPython main_working"
    then have "timers (killPython (killPython main_working)) = timers (killPython main_working)"
      by simp
    with once twice show False by simp
  qed
  have closing: "stdin_log (on_window_all_closed (on_window_closed main_working))
        = [(0, Quit), (0, Quit)]
      \<and> timers (on_window_all_closed (on_window_closed main_working)) = [1000, 1000]"
    by (simp add: on_window_all_closed_def on_window_closed_def killPython_def stdin_write_def
        main_working_simps)
  from once twice differ closing show ?thesis by simp
qed

section \<open>C5: the exit of the worker\<close>

text \<open>
  Claim C5, as the code has it. The handler of the worker's \<^verbatim>\<open>close\<close> event clears
  \<^verbatim>\<open>pythonProcess\<close>, and sends exactly one \<^verbatim>\<open>process-exit\<close> event with the exit code when
  the main window exists and is not destroyed, and none otherwise; it writes nothing to
  the worker and kills nothing. The next command then calls \<^verbatim>\<open>spawn\<close> and goes to a new
  child. (That a process which has exited raises no further events is the platform's
  doing; the handlers do not check it.)
\<close>

theorem close_clears_and_notifies:
  "pythonProcess (on_close code st) = None
   \<and> (window_live st \<longrightarrow>
        backend_events (on_close code st) = backend_events st @ [ProcessExit code])
   \<and> (\<not> window_live st \<longrightarrow> backend_events (on_close code st) = backend_events st)
   \<and> stdin_log (on_close code st) = stdin_log st
   \<and> killed (on_close code st) = killed st
   \<and> spawned (on_close code st) = spawned st
   \<and> (\<exists>st'. sendToPython w cmd (on_close code st) = Inr st'
         \<and> spawned st' = Suc (spawned st)
         \<and> pythonProcess st' = Some \<lparr>cid = spawned st, stdin_writable = w\<rparr>)"
  by (cases w)
    (simp_all add: on_close_def window_live_def send_backend_event_def Let_def sendToPython_def
      spawnPython_def stdin_write_def)

text \<open>
  Claim C5 at the state with the window open and a live worker that exits with code 1;
  the next command is a cancel.
\<close>

theorem close_clears_and_notifies_witness:
  "window_live main_working
   \<and> pythonProcess (on_close (Some 1) main_working) = None
   \<and> backend_events (on_close (Some 1) main_working) = [ProcessExit (Some 1)]
   \<and> sendToPython True Cancel (on_close (Some 1) main_working)
       = Inr (main_working\<lparr>pythonProcess := Some \<lparr>cid = 1, stdin_writable = True\<rparr>,
                           spawned := 2, stdin_log := [(1, Cancel)],
                           backend_events := [ProcessExit (Some 1)]\<rparr>)"
proof -
  have live: "window_live main_working"
    by (simp add: window_live_def main_working_simps)
  have sent: "pythonProcess (on_close (Some 1) main_working) = None
      \<and> backend_events (on_close (Some 1) main_working) = [ProcessExit (Some 1)]"
    using close_clears_and_notifies [of "Some 1" main_working True Cancel] live
    by (simp add: main_working_simps)
  have fresh: "sendToPython True Cancel (on_close (Some 1) main_working)
       = Inr (main_working\<lparr>pythonProcess := Some \<lparr>cid = 1, stdin_writable = True\<rparr>,
                           spawned := 2, stdin_log := [(1, Cancel)],
                           backend_events := [ProcessExit (Some 1)]\<rparr>)"
    by (simp add: on_close_def window_live_def send_backend_event_def sendToPython_def
        spawnPython_def stdin_write_def Let_def main_working_simps)
  from live sent fresh show ?thesis by simp
qed

text \<open>
  Claim C5 fails as stated: after the window was closed, the worker is still live; when
  it exits, its \<^verbatim>\<open>close\<close> handler clears \<^verbatim>\<open>pythonProcess\<close> and no \<^verbatim>\<open>process-exit\<close> event
  is sent.
\<close>

theorem close_without_window_counterexample:
  "pythonProcess main_closed = Some \<lparr>cid = 0, stdin_writable = True\<rparr>
   \<and> pythonProcess (on_close (Some 0) main_closed) = None
   \<and> backend_events (on_close (Some 0) main_closed) = []"
  by (simp add: on_close_def window_live_def main_closed_simps)

section \<open>C6: the percentage of a progress event\<close>

text \<open>
  Claim C6, as the code has it. For \<^verbatim>\<open>total > 0\<close> the percentage is
  \<^verbatim>\<open>(current / total) * 100\<close>, with no clamping: it lies between 0 and 100 exactly when
  \<^verbatim>\<open>current\<close> lies between 0 and \<^verbatim>\<open>total\<close>, and it is the width given to the bar as it
  is. For \<^verbatim>\<open>total\<close> not above 0 nothing is divided, the percentage is the number 0 and
  the bar gets the width \<^verbatim>\<open>0%\<close>; the count is empty in the first version and shows the
  two numbers in the second.
\<close>

theorem progress_percentage:
  "progressBar_width (setProgress ver cur tot st) = Some (progress_pct cur tot)
   \<and> (0 < tot \<longrightarrow>
        progress_pct cur tot = of_int cur / of_int tot * 100
        \<and> ((0 \<le> progress_pct cur tot \<and> progress_pct cur tot \<le> 100) = (0 \<le> cur \<and> cur \<le> tot)))
   \<and> (tot \<le> 0 \<longrightarrow>
        progress_pct cur tot = 0
        \<and> progressCount_text (setProgress ver cur tot st)
            = (case ver of RendererJs \<Rightarrow> NoCount | Part000 \<Rightarrow> CountOf cur tot))"
proof -
  have lo: "(0 \<le> progress_pct cur tot) = (0 \<le> cur)" if "0 < tot"
  proof -
    have "(0::rat) < of_int tot" using that by simp
    then have "(0 \<le> (of_int cur / of_int tot * 100 :: rat)) = (0 \<le> cur)"
      by (simp add: zero_le_divide_iff)
    with that show ?thesis by (simp add: progress_pct_def)
  qed
  have hi: "(progress_pct cur tot \<le> 100) = (cur \<le> tot)" if "0 < tot"
  proof -
    have "(0::rat) < of_int tot" using that by simp
    then have "((of_int cur / of_int tot * 100 :: rat) \<le> 100) = (cur \<le> tot)"
      by (simp add: pos_divide_le_eq)
    with that show ?thesis by (simp add: progress_pct_def)
  qed
  have bounds:
    "(0 \<le> progress_pct cur tot \<and> progress_pct cur tot \<le> 100) = (0 \<le> cur \<and> cur \<le> tot)"
    if "0 < tot"
    using lo [OF that] hi [OF that] by simp
  have width: "progressBar_width (setProgress ver cur tot st) = Some (progress_pct cur tot)"
    by (cases ver) (simp_all add: setProgress_def Let_def)
  have zero: "progress_pct cur tot = 0" if "tot \<le> 0"
    using that by (simp add: progress_pct_def)
  have count: "progressCount_text (setProgress ver cur tot st)
            = (case ver of RendererJs \<Rightarrow> NoCount | Part000 \<Rightarrow> CountOf cur tot)" if "tot \<le> 0"
    using that by (cases ver) (simp_all add: setProgress_def Let_def)
  have quotient: "progress_pct cur tot = of_int cur / of_int tot * 100" if "0 < tot"
    using that by (simp add: progress_pct_def)
  from width bounds zero count quotient show ?thesis by blast
qed

text \<open>Claim C6 at the progress events 50 of 200, which is 25 percent, and 5 of 0.\<close>

theorem progress_percentage_witness:
  "(0::int) < 200
   \<and> progress_pct 50 200 = 25
   \<and> progressBar_width (setProgress RendererJs 50 200 (renderer_running RendererJs)) = Some 25
   \<and> progress_pct 5 0 = 0
   \<and> progressCount_text (setProgress RendererJs 5 0 (renderer_running RendererJs)) = NoCount"
  using progress_percentage [of RendererJs 50 200 "renderer_running RendererJs"]
    progress_percentage [of RendererJs 5 0 "renderer_running RendererJs"]
  by simp

text \<open>
  Claim C6 fails as stated: the progress event 300 of 200 gives 150 percent, which both
  versions give to the bar as its width; and the event 0 of 0 gives the bar the width
  \<^verbatim>\<open>0%\<close>, a number, in both versions, with the count \<^verbatim>\<open>0 / 0\<close> in the second one.
\<close>

theorem progress_counterexample:
  "progress_pct 300 200 = 150
   \<and> progressBar_width (setProgress RendererJs 300 200 (renderer_running RendererJs)) = Some 150
   \<and> progressBar_width (setProgress Part000 300 200 (renderer_running Part000)) = Some 150
   \<and> progress_pct 0 0 = 0
   \<and> progressBar_width (setProgress RendererJs 0 0 (renderer_running RendererJs)) = Some 0
   \<and> progressBar_width (setProgress Part000 0 0 (renderer_running Part000)) = Some 0
   \<and> progressCount_text (setProgress Part000 0 0 (renderer_running Part000)) = CountOf 0 0"
  by (simp add: progress_pct_def setProgress_def)

section \<open>C7: a command for a worker whose input stream is not writable\<close>

text \<open>
  Claim C7, as the code has it. \<^verbatim>\<open>sendToPython\<close> never raises. When the worker's input
  stream is not writable, it writes nothing and leaves the state as it is (or, with no
  worker yet, as \<^verbatim>\<open>spawnPython\<close> leaves it): no failure is returned or sent to the
  renderer, and the handlers \<^verbatim>\<open>start-scan\<close> and \<^verbatim>\<open>cancel-scan\<close> return \<^verbatim>\<open>true\<close> as they
  do after a write.
\<close>

theorem unwritable_send_is_silent:
  "(\<exists>st'. sendToPython w cmd st = Inr st')
   \<and> (pythonProcess st = Some p \<and> \<not> stdin_writable p \<longrightarrow>
        sendToPython w cmd st = Inr st
        \<and> start_scan w src out thr st = Inr (True, st)
        \<and> cancel_scan w st = Inr (True, st))
   \<and> (pythonProcess st = None \<longrightarrow>
        sendToPython False cmd st = Inr (spawnPython False st)
        \<and> stdin_log (spawnPython False st) = stdin_log st
        \<and> backend_events (spawnPython False st) = backend_events st
        \<and> start_scan False src out thr st = Inr (True, spawnPython False st)
        \<and> cancel_scan False st = Inr (True, spawnPython False st))"
  by (auto simp: cancel_scan_def start_scan_def sendToPython_def spawnPython_def
      stdin_write_def Let_def split: option.splits)

text \<open>
  Claim C7 at a concrete state: the worker's input stream is no longer writable, and a
  scan is requested.
\<close>

theorem unwritable_send_is_silent_witness:
  "pythonProcess main_unwritable = Some \<lparr>cid = 0, stdin_writable = False\<rparr>
   \<and> \<not> stdin_writable \<lparr>cid = 0, stdin_writable = False\<rparr>
   \<and> sendToPython True (Scan ''/a'' ''/b'' 15) main_unwritable = Inr main_unwritable
   \<and> start_scan True ''/a'' ''/b'' 15 main_unwritable = Inr (True, main_unwritable)"
proof -
  have dead: "pythonProcess main_unwritable = Some \<lparr>cid = 0, stdin_writable = False\<rparr>"
    by (simp add: main_unwritable_def)
  show ?thesis
    using unwritable_send_is_silent
      [of True "Scan ''/a'' ''/b'' 15" main_unwritable "\<lparr>cid = 0, stdin_writable = False\<rparr>"
        "''/a''" "''/b''" 15] dead
    by simp
qed

text \<open>
  Claim C7 fails as stated: with a live worker whose input stream is no longer writable,
  the \<^verbatim>\<open>start-scan\<close> and \<^verbatim>\<open>cancel-scan\<close> handlers return \<^verbatim>\<open>true\<close>, as they do after a
  write; nothing was written and nothing was sent to the renderer. The same happens with
  no worker yet and a new child whose input stream is not writable.
\<close>

theorem unwritable_send_counterexample:
  "start_scan True ''/a'' ''/b'' 15 main_unwritable = Inr (True, main_unwritable)
   \<and> cancel_scan True main_unwritable = Inr (True, main_unwritable)
   \<and> stdin_log main_unwritable = []
   \<and> backend_events main_unwritable = []
   \<and> start_scan False ''/a'' ''/b'' 15 main_open = Inr (True, spawnPython False main_open)
   \<and> stdin_log (spawnPython False main_open) = []
   \<and> backend_events (spawnPython False main_open) = []"
  by (simp add: start_scan_def cancel_scan_def sendToPython_def spawnPython_def
      main_unwritable_def main_working_simps main_open_simps)

section \<open>C8: the same folder as source and output\<close>

text \<open>
  Claim C8, as the code has it. The check is the click handler's, not the
  \<^verbatim>\<open>start-scan\<close> handler's. When the source field and the output field hold the same
  path after trimming, a click on the start button makes no call of
  \<^verbatim>\<open>window.api.startScan\<close>: the main process is left as it is, whatever the state of the
  worker, so no command is written, and \<^verbatim>\<open>isScanning\<close> does not change. Hence every
  request that the click handler does pass on has a source different from its output.
  The \<^verbatim>\<open>start-scan\<close> handler itself compares nothing: called with a source equal to the
  output, it returns \<^verbatim>\<open>true\<close>, and with a worker whose input stream is writable it
  writes the scan command.
\<close>

theorem same_folder_rejected:
  assumes "trim (sourcePath_value rs) = trim (outputPath_value rs)"
  shows "snd (btnStart_onclick ver rs) = None
    \<and> click_start ver w (rs, ms) = Inr (fst (btnStart_onclick ver rs), ms)
    \<and> isScanning (fst (btnStart_onclick ver rs)) = isScanning rs
    \<and> (snd (btnStart_onclick ver rs') = Some (src, out, thr) \<longrightarrow> src \<noteq> out)
    \<and> (pythonProcess ms' = Some p \<and> stdin_writable p \<longrightarrow>
         start_scan w folder folder thr' ms'
           = Inr (True, ms'\<lparr>stdin_log := stdin_log ms' @ [(cid p, Scan folder folder thr')]\<rparr>))"
proof -
  have page: "snd (btnStart_onclick ver rs) = None
    \<and> click_start ver w (rs, ms) = Inr (fst (btnStart_onclick ver rs), ms)
    \<and> isScanning (fst (btnStart_onclick ver rs)) = isScanning rs"
    using assms
    by (auto simp: btnStart_onclick_def click_start_def Let_def shake_def addLog_def
        split: if_splits)
  have differ: "snd (btnStart_onclick ver rs') = Some (src, out, thr) \<longrightarrow> src \<noteq> out"
    by (auto simp: btnStart_onclick_def Let_def split: if_splits)
  have handler: "start_scan w folder folder thr' ms'
           = Inr (True, ms'\<lparr>stdin_log := stdin_log ms' @ [(cid p, Scan folder folder thr')]\<rparr>)"
    if "pythonProcess ms' = Some p" "stdin_writable p"
    using that by (rule start_scan_live)
  from page differ handler show ?thesis by blast
qed

text \<open>
  Claim C8 at a page whose source field holds \<^verbatim>\<open>/x\<close> after a space and whose output
  field holds \<^verbatim>\<open>/x\<close> before a no-break space (U+00A0), with a live worker: the click adds
  the error line to the log and the main process is unchanged. The click with \<^verbatim>\<open>/a\<close>
  and \<^verbatim>\<open>/b\<close> is passed on.
\<close>

theorem same_folder_rejected_witness:
  "trim (sourcePath_value (initial_renderer '' /x'' (''/x'' @ [CHR 0xC2, CHR 0xA0]) 10))
     = trim (outputPath_value (initial_renderer '' /x'' (''/x'' @ [CHR 0xC2, CHR 0xA0]) 10))
   \<and> click_start RendererJs True
        (initial_renderer '' /x'' (''/x'' @ [CHR 0xC2, CHR 0xA0]) 10, main_working)
       = Inr (addLog RendererJs ''Source and output folders cannot be the same.'' ''error''
                (initial_renderer '' /x'' (''/x'' @ [CHR 0xC2, CHR 0xA0]) 10), main_working)
   \<and> stdin_log main_working = []
   \<and> snd (btnStart_onclick RendererJs (initial_renderer ''/a'' ''/b'' 10))
       = Some (''/a'', ''/b'', 10)"
proof -
  have same: "trim (sourcePath_value (initial_renderer '' /x'' (''/x'' @ [CHR 0xC2, CHR 0xA0]) 10))
      = trim (outputPath_value (initial_renderer '' /x'' (''/x'' @ [CHR 0xC2, CHR 0xA0]) 10))"
    using trim_samples by (simp add: initial_renderer_def)
  have shown:
    "fst (btnStart_onclick RendererJs (initial_renderer '' /x'' (''/x'' @ [CHR 0xC2, CHR 0xA0]) 10))
      = addLog RendererJs ''Source and output folders cannot be the same.'' ''error''
          (initial_renderer '' /x'' (''/x'' @ [CHR 0xC2, CHR 0xA0]) 10)"
    using trim_samples by (simp add: btnStart_onclick_def initial_renderer_def)
  note inst = same_folder_rejected [OF same, of RendererJs True main_working
        "initial_renderer ''/a'' ''/b'' 10" "''/a''" "''/b''" 10 main_working
        "\<lparr>cid = 0, stdin_writable = True\<rparr>" "''/x''" 15]
  from inst have click: "click_start RendererJs True
        (initial_renderer '' /x'' (''/x'' @ [CHR 0xC2, CHR 0xA0]) 10, main_working)
       = Inr (fst (btnStart_onclick RendererJs
                (initial_renderer '' /x'' (''/x'' @ [CHR 0xC2, CHR 0xA0]) 10)), main_working)"
    by (elim conjE)
  have passed: "snd (btnStart_onclick RendererJs (initial_renderer ''/a'' ''/b'' 10))
       = Some (''/a'', ''/b'', 10)"
    by (simp add: renderer_running_flags)
  from same click shown passed show ?thesis
    by (simp only: main_working_simps)
qed

text \<open>
  Claim C8 fails as stated: the \<^verbatim>\<open>start-scan\<close> handler, called with \<^verbatim>\<open>/x\<close> as source
  and as output while a worker is live, returns \<^verbatim>\<open>true\<close> and writes the scan command to
  the worker.
\<close>

theorem same_folder_handler_counterexample:
  "start_scan True ''/x'' ''/x'' 15 main_working
     = Inr (True, main_working\<lparr>stdin_log := [(0, Scan ''/x'' ''/x'' 15)]\<rparr>)"
  by (simp add: start_scan_def sendToPython_def spawnPython_def stdin_write_def
      main_working_simps)

section \<open>C9: cancelling with no worker\<close>

text \<open>
  Claim C9. With no live worker, the \<^verbatim>\<open>cancel-scan\<close> handler is not a no-op: it calls
  \<^verbatim>\<open>spawn\<close>, stores the new child, and writes the cancel command to that child's input
  stream (the write is guarded by \<^verbatim>\<open>stdin.writable\<close>, which \<open>w\<close> stands for).
\<close>

theorem cancel_without_worker_spawns:
  assumes "pythonProcess st = None"
  shows "\<exists>st'. cancel_scan w st = Inr (True, st')
    \<and> st' \<noteq> st
    \<and> spawned st' = Suc (spawned st)
    \<and> pythonProcess st' = Some \<lparr>cid = spawned st, stdin_writable = w\<rparr>
    \<and> stdin_log st' = stdin_log st @ (if w then [(spawned st, Cancel)] else [])"
proof -
  obtain st' where run: "cancel_scan w st = Inr (True, st')"
    and cnt: "spawned st' = Suc (spawned st)"
    and child: "pythonProcess st' = Some \<lparr>cid = spawned st, stdin_writable = w\<rparr>"
    and written: "stdin_log st' = stdin_log st @ (if w then [(spawned st, Cancel)] else [])"
    using assms
    by (cases w)
      (simp_all add: cancel_scan_def sendToPython_def spawnPython_def stdin_write_def)
  from cnt have "st' \<noteq> st" by auto
  with run cnt child written show ?thesis by blast
qed

text \<open>Claim C9 at the state with the window open and no worker yet.\<close>

theorem cancel_without_worker_spawns_witness:
  "pythonProcess main_open = None
   \<and> cancel_scan True main_open
       = Inr (True, main_open\<lparr>pythonProcess := Some \<lparr>cid = 0, stdin_writable = True\<rparr>,
                              spawned := 1, stdin_log := [(0, Cancel)]\<rparr>)"
  using cancel_without_worker_spawns [of main_open True]
  by (simp add: cancel_scan_def sendToPython_def spawnPython_def stdin_write_def
      main_open_simps)

section \<open>C10: events and the main window\<close>

text \<open>
  Claim C10. The three handlers that send to the renderer (a decoded output line, a
  chunk of the error stream, the exit of the process) send only when the main window
  exists and is not destroyed. Without such a window the event is dropped and nothing of
  it is kept: the line and error handlers leave the state unchanged, the exit handler
  only clears \<^verbatim>\<open>pythonProcess\<close>. With such a window the event is appended to what was
  sent.
\<close>

theorem events_need_live_window:
  "(\<not> window_live st \<longrightarrow>
      on_line parse line st = st \<and> on_stderr data st = st
      \<and> on_close code st = st\<lparr>pythonProcess := None\<rparr>)
   \<and> (backend_events (on_line parse line st) \<noteq> backend_events st \<longrightarrow> window_live st)
   \<and> (backend_events (on_stderr data st) \<noteq> backend_events st \<longrightarrow> window_live st)
   \<and> (backend_events (on_close code st) \<noteq> backend_events st \<longrightarrow> window_live st)
   \<and> (window_live st \<longrightarrow>
        (parse line = Inr msg \<longrightarrow>
           backend_events (on_line parse line st) = backend_events st @ [msg])
        \<and> (trim data \<noteq> [] \<longrightarrow>
           backend_events (on_stderr data st) = backend_events st @ [Error (trim data)])
        \<and> backend_events (on_close code st) = backend_events st @ [ProcessExit code])"
  by (auto simp: on_line_def on_line_try_def on_stderr_def on_close_def window_live_def
      send_backend_event_def Let_def split: sum.splits option.splits)

text \<open>
  Claim C10 at the state after the window was closed: a line, an error chunk and the
  exit of the worker arrive; nothing is sent, and opening a window afterwards replays
  nothing.
\<close>

theorem events_need_live_window_witness:
  "\<not> window_live main_closed
   \<and> on_line sample_parse cancelled_line main_closed = main_closed
   \<and> on_stderr ''boom'' main_closed = main_closed
   \<and> on_close (Some 0) main_closed = main_closed\<lparr>pythonProcess := None\<rparr>
   \<and> backend_events
        (createWindow (on_close (Some 0) (on_stderr ''boom''
           (on_line sample_parse cancelled_line main_closed)))) = []"
proof -
  have gone: "\<not> window_live main_closed"
    by (simp add: window_live_def main_closed_simps)
  show ?thesis
    using events_need_live_window
      [of main_closed sample_parse cancelled_line "''boom''" "Some 0" Cancelled] gone
    by (simp add: createWindow_def main_closed_simps)
qed

end
